theory Spec2Isabelle
  imports Complex_Main
begin

section \<open>Strings\<close>

text \<open>
  A JavaScript string is modelled as a \<^typ>\<open>string\<close>, one \<^typ>\<open>char\<close> per code unit;
  \<open>toLowerCase\<close> and \<open>trim\<close> are modelled on the ASCII range (GitHub logins and repository
  names are ASCII).
\<close>

definition upperChars :: string where
  "upperChars = ''ABCDEFGHIJKLMNOPQRSTUVWXYZ''"

definition lowerChars :: string where
  "lowerChars = ''abcdefghijklmnopqrstuvwxyz''"

definition toLowerChar :: "char \<Rightarrow> char" where
  "toLowerChar c = (case map_of (zip upperChars lowerChars) c of Some l \<Rightarrow> l | None \<Rightarrow> c)"

definition toLowerCase :: "string \<Rightarrow> string" where
  "toLowerCase s = map toLowerChar s"

definition isWhitespace :: "char \<Rightarrow> bool" where
  "isWhitespace c = (c \<in> set [CHR '' '', CHR 0x09, CHR 0x0A, CHR 0x0B, CHR 0x0C, CHR 0x0D])"

definition trim :: "string \<Rightarrow> string" where
  "trim s = rev (dropWhile isWhitespace (rev (dropWhile isWhitespace s)))"

text \<open>\<open>s.split(c)\<close>: never empty; \<open>n\<close> separators give \<open>n + 1\<close> parts.\<close>

fun splitOn :: "char \<Rightarrow> string \<Rightarrow> string list" where
  "splitOn c [] = [[]]"
| "splitOn c (x # xs) =
     (if x = c then [] # splitOn c xs
      else (case splitOn c xs of [] \<Rightarrow> [[x]] | p # ps \<Rightarrow> (x # p) # ps))"

fun startsWith :: "string \<Rightarrow> string \<Rightarrow> bool" where
  "startsWith s [] = True"
| "startsWith [] (p # ps) = False"
| "startsWith (x # xs) (p # ps) = (x = p \<and> startsWith xs ps)"

text \<open>\<open>s.includes(pat)\<close> (\<open>includes\<close> is a keyword of Isabelle)\<close>

fun str_includes :: "string \<Rightarrow> string \<Rightarrow> bool" where
  "str_includes [] pat = (pat = [])"
| "str_includes (x # xs) pat = (startsWith (x # xs) pat \<or> str_includes xs pat)"

section \<open>Data model (types.ts)\<close>

datatype complexity = Simple | Moderate | Complex

record PackageJson =
  dependencies :: "string list"
  devDependencies :: "string list"
  scripts :: "string list"
  description :: "string option"

record Readme =
  readme_length :: int
  hasDemo :: bool
  hasDocs :: bool
  techMentions :: "string list"
  projectType :: string
  hasMetrics :: bool
  complexity :: complexity

text \<open>
  Optional fields (\<open>f?: T\<close>) are options; \<open>None\<close> is \<open>undefined\<close>. The counters are
  integers. The quotients that the scoring engine computes from them (contribution ratio,
  kilobytes, days) are exact rationals here; at \<open>10 / 100\<close> the IEEE quotient is the double
  nearest to \<open>1/10\<close>, which is the value of the literal \<open>0.1\<close>, so the strict comparison is
  false in both.
\<close>

record EnrichedData =
  packageJson :: "PackageJson option"
  pythonDependencies :: "string list option"
  commitCount :: "int option"
  userCommitCount :: "int option"
  languages :: "(string \<times> int) list option"
  languageCount :: "int option"
  totalCodeBytes :: "int option"
  readme :: "Readme option"
  isMLProject :: "bool option"
  isDataScience :: "bool option"
  detectedTechnologies :: "string list option"

text \<open>
  The fields of \<open>GitHubRepo\<close> that the listing filter and the scoring engine read.
  \<open>updated_at\<close> holds the time value of \<open>new Date(repo.updated_at)\<close> in milliseconds,
  \<open>None\<close> when the date is invalid; the two counters are \<open>None\<close> when they are not numbers.
\<close>

record GitHubRepo =
  repo_id :: int
  full_name :: string
  owner_login :: "string option"
  is_private :: bool
  fork :: bool
  updated_at :: "int option"
  stargazers_count :: "int option"
  forks_count :: "int option"

record EnrichedRepoData = GitHubRepo +
  calculatedScore :: "int option"
  enrichedData :: "EnrichedData option"

section \<open>scoreAndSortRepos\<close>

text \<open>\<open>typeof x === 'number' ? x : 0\<close>\<close>

definition numberOr0 :: "int option \<Rightarrow> int" where
  "numberOr0 x = (case x of Some n \<Rightarrow> n | None \<Rightarrow> 0)"

text \<open>\<open>owner.toLowerCase().trim() === usernameLower\<close>\<close>

definition isOwnRepo :: "string \<Rightarrow> string \<Rightarrow> bool" where
  "isOwnRepo owner usernameLower = (trim (toLowerCase owner) = usernameLower)"

text \<open>
  Days since the last update; \<open>None\<close> is \<open>Infinity\<close> (invalid date). \<open>now\<close> is \<open>Date.now()\<close>.
\<close>

definition daysSinceUpdate :: "int \<Rightarrow> int option \<Rightarrow> rat option" where
  "daysSinceUpdate now upd =
     (case upd of None \<Rightarrow> None
      | Some t \<Rightarrow> Some (of_int (now - t) / (1000 * 60 * 60 * 24)))"

definition daysBelow :: "rat option \<Rightarrow> rat \<Rightarrow> bool" where
  "daysBelow d n = (case d of None \<Rightarrow> False | Some x \<Rightarrow> x < n)"

text \<open>Basic scoring when enrichment failed (\<open>if (!data)\<close>).\<close>

definition fallbackScore :: "int \<Rightarrow> bool \<Rightarrow> 'a GitHubRepo_scheme \<Rightarrow> int" where
  "fallbackScore now own repo =
     (let stars = numberOr0 (stargazers_count repo);
          forks = numberOr0 (forks_count repo);
          s1 = (if \<not> is_private repo \<and> stars > 10 then 30 else 0);
          s2 = s1 + (if forks > 5 then 20 else 0);
          s3 = s2 + (if daysBelow (daysSinceUpdate now (updated_at repo)) 90 then 10 else 0);
          s4 = s3 + (if own then 20 else 0);
          s5 = s4 - (if fork repo then 200 else 0)
      in max 0 s5)"

definition contributionRatio :: "int \<Rightarrow> int \<Rightarrow> rat" where
  "contributionRatio userCommits totalCommits =
     (if totalCommits > 0 \<and> userCommits \<ge> 0
        then min (of_int userCommits / of_int totalCommits) 1
      else if totalCommits = 0 \<and> userCommits > 0 then 1
      else 0)"

text \<open>
  User contribution analysis: either the early return with the sentinel
  (\<open>Removed\<close>) or the penalty subtracted from the score.
\<close>

datatype gate = Removed | Penalty int

definition contributionGate :: "bool \<Rightarrow> bool \<Rightarrow> int \<Rightarrow> int \<Rightarrow> gate" where
  "contributionGate own isFork userCommits totalCommits =
     (let ratio = contributionRatio userCommits totalCommits in
      if \<not> own then
        (if userCommits = 0 then Removed
         else if userCommits < 3 then Penalty 300
         else if userCommits < 10 \<or> ratio < 1 / 10 then Penalty 200
         else if userCommits < 20 \<or> ratio < 1 / 4 then Penalty 100
         else Penalty 0)
      else if isFork then
        (if userCommits = 0 then Removed
         else if userCommits < 10 then Penalty 250
         else if userCommits < 30 then Penalty 150
         else Penalty 0)
      else Penalty 0)"

definition commitActivity :: "int \<Rightarrow> int" where
  "commitActivity relevantCommits =
     (if relevantCommits > 500 then 100
      else if relevantCommits > 200 then 80
      else if relevantCommits > 100 then 60
      else if relevantCommits > 50 then 40
      else if relevantCommits > 20 then 20
      else if relevantCommits > 5 then 10
      else 0)"

definition codeSize :: "int \<Rightarrow> int" where
  "codeSize codeBytes =
     (let codeKB = (if codeBytes > 0 then of_int codeBytes / 1024 else 0 :: rat) in
      if codeKB > 1000 then 50
      else if codeKB > 500 then 40
      else if codeKB > 200 then 30
      else if codeKB > 100 then 20
      else if codeKB > 50 then 10
      else 0)"

definition languageDiversity :: "int \<Rightarrow> int" where
  "languageDiversity langCount =
     (if langCount \<ge> 5 then 30
      else if langCount \<ge> 3 then 20
      else if langCount \<ge> 2 then 10
      else 0)"

definition readmeLengthOf :: "EnrichedData \<Rightarrow> int" where
  "readmeLengthOf d = (case readme d of None \<Rightarrow> 0 | Some r \<Rightarrow> readme_length r)"

definition readmeQuality :: "int \<Rightarrow> int" where
  "readmeQuality readmeLength =
     (if readmeLength > 5000 then 40
      else if readmeLength > 2000 then 30
      else if readmeLength > 1000 then 20
      else if readmeLength > 500 then 10
      else 0)"

definition projectComplexity :: "EnrichedData \<Rightarrow> int" where
  "projectComplexity d =
     (case readme d of None \<Rightarrow> 0
      | Some r \<Rightarrow> (if complexity r = Complex then 50
                   else if complexity r = Moderate then 25 else 0))"

definition readmeFlag :: "(Readme \<Rightarrow> bool) \<Rightarrow> EnrichedData \<Rightarrow> bool" where
  "readmeFlag f d = (case readme d of None \<Rightarrow> False | Some r \<Rightarrow> f r)"

definition qualityIndicators :: "EnrichedData \<Rightarrow> int" where
  "qualityIndicators d =
     (let ss = (case packageJson d of None \<Rightarrow> [] | Some p \<Rightarrow> scripts p) in
      (if list_ex (\<lambda>s. str_includes s ''test'') ss then 20 else 0)
      + (if list_ex (\<lambda>s. str_includes s ''build'') ss then 15 else 0)
      + (if list_ex (\<lambda>s. str_includes s ''lint'') ss then 10 else 0)
      + (if readmeFlag hasDocs d then 15 else 0)
      + (if readmeFlag hasDemo d then 20 else 0)
      + (if readmeFlag hasMetrics d then 15 else 0))"

definition dependencyCount :: "EnrichedData \<Rightarrow> int" where
  "dependencyCount d =
     (let depCount = int (length (case detectedTechnologies d of None \<Rightarrow> [] | Some ts \<Rightarrow> ts)) in
      if depCount > 30 then 30
      else if depCount > 20 then 20
      else if depCount > 10 then 10
      else 0)"

definition recency :: "rat option \<Rightarrow> int" where
  "recency days =
     (if daysBelow days 30 then 30
      else if daysBelow days 90 then 20
      else if daysBelow days 180 then 10
      else 0)"

definition publicRepoBonuses :: "'a GitHubRepo_scheme \<Rightarrow> int" where
  "publicRepoBonuses repo =
     (if \<not> is_private repo then
        (let stars = numberOr0 (stargazers_count repo);
             forks = numberOr0 (forks_count repo) in
         (if stars > 100 then 50
          else if stars > 50 then 40
          else if stars > 20 then 30
          else if stars > 10 then 20
          else if stars > 5 then 10
          else 0)
         + (if forks > 20 then 30
            else if forks > 10 then 20
            else if forks > 5 then 10
            else 0))
      else 0)"

definition minorPenalties :: "bool \<Rightarrow> bool \<Rightarrow> int \<Rightarrow> int \<Rightarrow> int" where
  "minorPenalties own isFork readmeLen relevantCommits =
     (if readmeLen = 0 then 20 else 0)
     + (if own \<and> \<not> isFork \<and> relevantCommits < 5 then 20 else 0)"

text \<open>
  The positive signals and minor penalties added after the contribution analysis
  (from COMMIT ACTIVITY down to MINOR PENALTIES).
\<close>

definition signals :: "int \<Rightarrow> bool \<Rightarrow> 'a GitHubRepo_scheme \<Rightarrow> EnrichedData \<Rightarrow> int" where
  "signals now own repo d =
     (let userCommits = numberOr0 (userCommitCount d);
          totalCommits = numberOr0 (commitCount d);
          relevantCommits = (if own then totalCommits else userCommits)
      in commitActivity relevantCommits
         + codeSize (numberOr0 (totalCodeBytes d))
         + languageDiversity (numberOr0 (languageCount d))
         + readmeQuality (readmeLengthOf d)
         + projectComplexity d
         + qualityIndicators d
         + dependencyCount d
         + recency (daysSinceUpdate now (updated_at repo))
         + publicRepoBonuses repo
         + (if own then 30 else 0)
         - minorPenalties own (fork repo) (readmeLengthOf d) relevantCommits)"

text \<open>The value the \<open>map\<close> callback stores in \<open>calculatedScore\<close>.\<close>

definition computeScore :: "string \<Rightarrow> int \<Rightarrow> EnrichedRepoData \<Rightarrow> int" where
  "computeScore usernameLower now repo =
     (let parts = splitOn CHR ''/'' (full_name repo) in
      if length parts < 2 then 0
      else
        let own = isOwnRepo (hd parts) usernameLower in
        (case enrichedData repo of
           None \<Rightarrow> fallbackScore now own repo
         | Some d \<Rightarrow>
             (case contributionGate own (fork repo)
                     (numberOr0 (userCommitCount d)) (numberOr0 (commitCount d)) of
                Removed \<Rightarrow> - 9999
              | Penalty p \<Rightarrow> signals now own repo d - p)))"

definition scoreRepo :: "string \<Rightarrow> int \<Rightarrow> EnrichedRepoData \<Rightarrow> EnrichedRepoData" where
  "scoreRepo usernameLower now repo =
     repo\<lparr>calculatedScore := Some (computeScore usernameLower now repo)\<rparr>"

text \<open>The \<open>filter\<close> callback, with its local \<open>isOwn\<close>.\<close>

definition isOwn :: "string \<Rightarrow> EnrichedRepoData \<Rightarrow> bool" where
  "isOwn usernameLower repo =
     (let parts = splitOn CHR ''/'' (full_name repo)
      in length parts \<ge> 2 \<and> trim (toLowerCase (hd parts)) = usernameLower)"

definition keepScored :: "string \<Rightarrow> EnrichedRepoData \<Rightarrow> bool" where
  "keepScored usernameLower repo =
     (case calculatedScore repo of
        None \<Rightarrow> False
      | Some score \<Rightarrow>
          if score < - 1000 then False
          else score > 0 \<or> (score \<ge> 0 \<and> isOwn usernameLower repo))"

text \<open>
  The comparator \<open>scoreB - scoreA\<close> orders by descending score; \<open>Array.prototype.sort\<close>
  is stable, as is \<^const>\<open>sort_key\<close>.
\<close>

definition sortKey :: "EnrichedRepoData \<Rightarrow> int" where
  "sortKey repo = - numberOr0 (calculatedScore repo)"

definition scoreAndSortRepos :: "EnrichedRepoData list \<Rightarrow> string \<Rightarrow> int \<Rightarrow> EnrichedRepoData list" where
  "scoreAndSortRepos repos username now =
     (let usernameLower = toLowerCase username in
      sort_key sortKey (filter (keepScored usernameLower) (map (scoreRepo usernameLower now) repos)))"

section \<open>fetchAllRepos: the relevance filter\<close>

text \<open>The filter's local \<open>isOwnRepo\<close>: by the owner part of \<open>full_name\<close> or by \<open>owner.login\<close>.\<close>

definition isOwnRepo_listing :: "string \<Rightarrow> 'a GitHubRepo_scheme \<Rightarrow> bool" where
  "isOwnRepo_listing trimmedUsername repo =
     (let parts = splitOn CHR ''/'' (full_name repo);
          owner = hd parts;
          ownerLower = trim (toLowerCase owner);
          usernameLower = trim (toLowerCase trimmedUsername)
      in ownerLower = usernameLower
         \<or> (case owner_login repo of None \<Rightarrow> False
             | Some login \<Rightarrow> trim (toLowerCase login) = usernameLower))"

definition relevantRepo :: "string \<Rightarrow> 'a GitHubRepo_scheme \<Rightarrow> bool" where
  "relevantRepo trimmedUsername repo =
     (if full_name repo = [] then False
      else if length (splitOn CHR ''/'' (full_name repo)) < 2 then False
      else
        let own = isOwnRepo_listing trimmedUsername repo in
        if own \<and> \<not> fork repo then True
        else if fork repo \<and> \<not> own then False
        else if fork repo \<and> own
                \<and> numberOr0 (stargazers_count repo) < 20 \<and> numberOr0 (forks_count repo) < 10
          then False
        else True)"

definition userRelevantRepos :: "string \<Rightarrow> 'a GitHubRepo_scheme list \<Rightarrow> 'a GitHubRepo_scheme list" where
  "userRelevantRepos username uniqueRepos = filter (relevantRepo (trim username)) uniqueRepos"

section \<open>enrichRepoData\<close>

text \<open>\<open>xs.slice(0, end)\<close>: a negative \<open>end\<close> counts from the end of the array.\<close>

definition sliceTo :: "'a list \<Rightarrow> int \<Rightarrow> 'a list" where
  "sliceTo xs e = (if e < 0 then take (nat (int (length xs) + e)) xs else take (nat e) xs)"

text \<open>
  The fetches and parsers run for one repository are a parameter \<open>enrichOne\<close>: the
  enrichment record they produce, \<open>None\<close> when anything in them throws. \<open>limit\<close> is the
  optional fourth argument.
\<close>

definition enrichEntry :: "(GitHubRepo \<Rightarrow> EnrichedData option) \<Rightarrow> GitHubRepo \<Rightarrow> EnrichedRepoData" where
  "enrichEntry enrichOne repo =
     GitHubRepo.extend repo
       (EnrichedRepoData.fields None
          (if length (splitOn CHR ''/'' (full_name repo)) < 2 then None else enrichOne repo))"

definition enrichRepoData ::
  "(GitHubRepo \<Rightarrow> EnrichedData option) \<Rightarrow> GitHubRepo list \<Rightarrow> int option \<Rightarrow> EnrichedRepoData list" where
  "enrichRepoData enrichOne repos limit =
     (let topRepos = sliceTo repos (case limit of None \<Rightarrow> 10 | Some l \<Rightarrow> l)
      in map (enrichEntry enrichOne) topRepos)"

section \<open>fetchFileContent\<close>

text \<open>
  The browser's \<open>atob\<close> (forgiving base64 decoding): ASCII whitespace is removed, up to two
  trailing \<open>=\<close> are dropped when the length is a multiple of four, and a remaining length
  of 1 modulo 4 or a character outside the alphabet makes it throw (\<open>None\<close>).
\<close>

definition b64Alphabet :: string where
  "b64Alphabet = ''ABCDEFGHIJKLMNOPQRSTUVWXYZabcdefghijklmnopqrstuvwxyz0123456789+/''"

fun indexOf :: "'a \<Rightarrow> 'a list \<Rightarrow> nat option" where
  "indexOf c [] = None"
| "indexOf c (x # xs) = (if c = x then Some 0 else map_option Suc (indexOf c xs))"

fun sextets :: "string \<Rightarrow> nat list option" where
  "sextets [] = Some []"
| "sextets (c # cs) =
     (case indexOf c b64Alphabet of None \<Rightarrow> None
      | Some v \<Rightarrow> map_option ((#) v) (sextets cs))"

fun fromSextets :: "nat list \<Rightarrow> nat list" where
  "fromSextets (a # b # c # d # rest) =
     [a * 4 + b div 16, (b mod 16) * 16 + c div 4, (c mod 4) * 64 + d] @ fromSextets rest"
| "fromSextets [a, b, c] = [a * 4 + b div 16, (b mod 16) * 16 + c div 4]"
| "fromSextets [a, b] = [a * 4 + b div 16]"
| "fromSextets _ = []"

definition stripPadding :: "string \<Rightarrow> string" where
  "stripPadding s =
     (if length s mod 4 = 0 then
        (if s \<noteq> [] \<and> last s = CHR ''=''
         then (if butlast s \<noteq> [] \<and> last (butlast s) = CHR ''='' then butlast (butlast s)
               else butlast s)
         else s)
      else s)"

definition atob :: "string \<Rightarrow> string option" where
  "atob s =
     (let d = stripPadding (filter (\<lambda>c. c \<notin> set [CHR 0x09, CHR 0x0A, CHR 0x0C, CHR 0x0D, CHR '' '']) s)
      in if length d mod 4 = 1 then None
         else map_option (\<lambda>v. map char_of (fromSextets v)) (sextets d))"

text \<open>\<open>try { return atob(str) } catch { return '' }\<close>\<close>

definition base64Decode :: "string \<Rightarrow> string" where
  "base64Decode str = (case atob str of Some decoded \<Rightarrow> decoded | None \<Rightarrow> '''')"

datatype js_error = AbortError | NetworkError | SyntaxError | TypeError

text \<open>The JSON value at \<open>data.content\<close>: missing, a string, or anything else that is truthy.\<close>

datatype json_field = Missing | Str string | OtherTruthy

record ContentsJson =
  data_size :: "int option"
  data_content :: json_field
  data_encoding :: "string option"

text \<open>What \<open>response.json()\<close> gives: a rejection, \<open>null\<close>, or an object.\<close>

datatype body = JsonRejects | JsonNull | JsonObject ContentsJson

text \<open>
  What the request does: \<open>fetch\<close> rejects (a network failure, or the abort when
  \<open>timeoutMs\<close> has passed), or it resolves with \<open>response.ok\<close> and a body.
\<close>

datatype upstream = FetchRejects js_error | Response bool body

text \<open>
  The body of the outer \<open>try\<close>: \<open>Inl\<close> is a thrown error. Reading a field of \<open>null\<close>
  throws; \<open>replace\<close> on content that is not a string throws inside the inner \<open>try\<close>, whose
  \<open>catch\<close> returns \<open>null\<close>.
\<close>

definition fetchFileContent_try :: "upstream \<Rightarrow> int \<Rightarrow> js_error + string option" where
  "fetchFileContent_try up maxSizeBytes =
     (case up of
        FetchRejects e \<Rightarrow> Inl e
      | Response ok b \<Rightarrow>
          if \<not> ok then Inr None
          else
            (case b of
               JsonRejects \<Rightarrow> Inl SyntaxError
             | JsonNull \<Rightarrow> Inl TypeError
             | JsonObject data \<Rightarrow>
                 if (case data_size data of None \<Rightarrow> False | Some n \<Rightarrow> n \<noteq> 0 \<and> n > maxSizeBytes)
                   then Inr None
                 else if data_content data \<noteq> Missing \<and> data_content data \<noteq> Str [] \<and> data_encoding data = Some ''base64''
                   then
                     (case data_content data of
                        Str c \<Rightarrow>
                          let decoded = base64Decode (filter (\<lambda>x. x \<noteq> CHR 0x0A) c) in
                          if int (length decoded) > maxSizeBytes then Inr None
                          else Inr (Some decoded)
                      | _ \<Rightarrow> Inr None)
                 else Inr None))"

text \<open>
  \<open>fetchFileContent\<close> with its outer \<open>catch\<close>; \<open>maxSizeBytes\<close> is the optional last argument.
\<close>

definition fetchFileContent :: "upstream \<Rightarrow> int option \<Rightarrow> js_error + string option" where
  "fetchFileContent up maxSizeBytes =
     (case fetchFileContent_try up (case maxSizeBytes of None \<Rightarrow> 1024 * 1024 | Some m \<Rightarrow> m) of
        Inl e \<Rightarrow> Inr None
      | Inr r \<Rightarrow> Inr r)"

section \<open>Manifest parsers\<close>

definition digitChars :: string where
  "digitChars = ''0123456789''"

definition alnumChars :: string where
  "alnumChars = lowerChars @ upperChars @ digitChars"

text \<open>\<open>[...new Set(xs)]\<close>: the elements in the order of their first occurrence.\<close>

definition newSet :: "'a list \<Rightarrow> 'a list" where
  "newSet xs = foldl (\<lambda>acc x. if x \<in> set acc then acc else acc @ [x]) [] xs"

text \<open>\<open>line.match(/^([a-zA-Z0-9_-]+)/)\<close>, its first group.\<close>

definition packageName :: "string \<Rightarrow> string option" where
  "packageName line =
     (let m = takeWhile (\<lambda>c. c \<in> set (alnumChars @ ''_-'')) line
      in if m = [] then None else Some m)"

definition parseRequirementsTxt :: "string \<Rightarrow> string list" where
  "parseRequirementsTxt content =
     (if content = [] \<or> length content > 100000 then []
      else
        let lines = take 500 (splitOn CHR 0x0A content);
            trimmed = map trim lines;
            kept = filter (\<lambda>line. line \<noteq> [] \<and> \<not> startsWith line ''#'' \<and> length line < 200) trimmed;
            names = map packageName kept
        in List.map_filter
             (\<lambda>pkg. case pkg of None \<Rightarrow> None
                    | Some p \<Rightarrow> if length p > 0 \<and> length p < 100 then Some p else None)
             names)"

text \<open>\<open>([a-zA-Z0-9._/-]+)\s+v\<close> at the start of \<open>s\<close>, its group.\<close>

definition modulePath :: "string \<Rightarrow> string option" where
  "modulePath s =
     (let g = takeWhile (\<lambda>c. c \<in> set (alnumChars @ ''._/-'')) s;
          r = dropWhile (\<lambda>c. c \<in> set (alnumChars @ ''._/-'')) s
      in if g \<noteq> [] \<and> r \<noteq> [] \<and> isWhitespace (hd r) \<and> startsWith (dropWhile isWhitespace r) ''v''
         then Some g else None)"

text \<open>
  \<open>line.match(/^\s*(?:require\s+)?([a-zA-Z0-9._/-]+)\s+v/)\<close>, its group: the optional
  \<open>require\<close> prefix is tried first.
\<close>

definition requireMatch :: "string \<Rightarrow> string option" where
  "requireMatch line =
     (let l1 = dropWhile isWhitespace line;
          l2 = drop 7 l1;
          withRequire =
            (if startsWith l1 ''require'' \<and> l2 \<noteq> [] \<and> isWhitespace (hd l2)
             then modulePath (dropWhile isWhitespace l2) else None)
      in case withRequire of Some g \<Rightarrow> Some g | None \<Rightarrow> modulePath l1)"

definition parseGoMod :: "string \<Rightarrow> string list" where
  "parseGoMod content =
     (if content = [] \<or> length content > 100000 then []
      else
        let lines = splitOn CHR 0x0A content;
            deps = concat (map (\<lambda>line.
                     case requireMatch line of None \<Rightarrow> []
                     | Some m \<Rightarrow>
                         let pkgName = last (splitOn CHR ''/'' m)
                         in if pkgName \<noteq> [] \<and> length pkgName < 50 then [pkgName] else []) lines)
        in take 100 (newSet deps))"

section \<open>parseReadme\<close>

text \<open>A regular expression without \<open>^\<close> is tried at every start position.\<close>

fun existsSuffix :: "(string \<Rightarrow> bool) \<Rightarrow> string \<Rightarrow> bool" where
  "existsSuffix P [] = P []"
| "existsSuffix P (x # xs) = (P (x # xs) \<or> existsSuffix P xs)"

definition lineTerminator :: "char \<Rightarrow> bool" where
  "lineTerminator c = (c = CHR 0x0A \<or> c = CHR 0x0D)"

text \<open>\<open>a.?b\<close> at the start of \<open>s\<close>: the dot matches any character but a line terminator.\<close>

definition startsWithOptAny :: "string \<Rightarrow> string \<Rightarrow> string \<Rightarrow> bool" where
  "startsWithOptAny s a b =
     (startsWith s a \<and>
      (let r = drop (length a) s
       in (r \<noteq> [] \<and> \<not> lineTerminator (hd r) \<and> startsWith (tl r) b) \<or> startsWith r b))"

text \<open>An alternation of plain words, tested anywhere in \<open>s\<close>.\<close>

definition testAny :: "string \<Rightarrow> string list \<Rightarrow> bool" where
  "testAny s words = list_ex (str_includes s) words"

text \<open>\<open>\d\+?\s*(users|requests|downloads|stars|contributors|companies)\<close> at the start, ignoring case.\<close>

definition metricsAt :: "string \<Rightarrow> bool" where
  "metricsAt s =
     (case s of [] \<Rightarrow> False
      | d # r \<Rightarrow>
          d \<in> set digitChars \<and>
          (let r1 = (if startsWith r ''+'' then tl r else r);
               r2 = toLowerCase (dropWhile isWhitespace r1)
           in list_ex (startsWith r2)
                [''users'', ''requests'', ''downloads'', ''stars'', ''contributors'', ''companies'']))"

text \<open>\<open>content.split(/\s+/).length\<close>: one more than the number of maximal runs of whitespace.\<close>

fun whitespaceRuns :: "bool \<Rightarrow> string \<Rightarrow> nat" where
  "whitespaceRuns prev [] = 0"
| "whitespaceRuns prev (x # xs) =
     (if isWhitespace x \<and> \<not> prev then 1 else 0) + whitespaceRuns (isWhitespace x) xs"

definition wordCount :: "string \<Rightarrow> nat" where
  "wordCount content = Suc (whitespaceRuns False content)"

text \<open>\<open>!\[.*\]\(.*\)\<close> at the start of \<open>s\<close>, all on one line.\<close>

definition diagramAt :: "string \<Rightarrow> bool" where
  "diagramAt s =
     (startsWith s ''!['' \<and>
      existsSuffix (\<lambda>t. startsWith t ''](''  \<and> CHR '')'' \<in> set (drop 2 t))
        (takeWhile (\<lambda>c. \<not> lineTerminator c) (drop 2 s)))"

text \<open>\<open>#{2,3}\s\<close> at the start of \<open>s\<close>.\<close>

definition headerAt :: "string \<Rightarrow> bool" where
  "headerAt s =
     (startsWith s ''##'' \<and>
      (let r = drop 2 s
       in (r \<noteq> [] \<and> isWhitespace (hd r))
          \<or> (startsWith r ''#'' \<and> tl r \<noteq> [] \<and> isWhitespace (hd (tl r)))))"

text \<open>The number of matches of \<open>/^#{2,3}\s/gm\<close>: \<open>atStart\<close> says that a line starts here.\<close>

fun countHeaders :: "bool \<Rightarrow> string \<Rightarrow> nat" where
  "countHeaders atStart [] = 0"
| "countHeaders atStart (x # xs) =
     (if atStart \<and> headerAt (x # xs) then 1 else 0) + countHeaders (lineTerminator x) xs"

text \<open>
  The technology vocabulary \<open>\b(react|vue|...|junit)\b\<close> with the flags \<open>gi\<close>. A pattern is
  a list of pieces; \<open>prev\<close> is the character before the current position.
\<close>

datatype piece = Lit char | OptDot | OptSpace | Boundary

definition wordChar :: "char option \<Rightarrow> bool" where
  "wordChar c = (case c of None \<Rightarrow> False | Some x \<Rightarrow> x \<in> set (alnumChars @ ''_''))"

fun matchPieces :: "piece list \<Rightarrow> char option \<Rightarrow> string \<Rightarrow> nat option" where
  "matchPieces [] prev s = Some 0"
| "matchPieces (Boundary # ps) prev s =
     (if wordChar prev \<noteq> wordChar (case s of [] \<Rightarrow> None | x # _ \<Rightarrow> Some x)
      then matchPieces ps prev s else None)"
| "matchPieces (Lit c # ps) prev s =
     (case s of [] \<Rightarrow> None
      | x # xs \<Rightarrow> if toLowerChar x = c then map_option Suc (matchPieces ps (Some x) xs) else None)"
| "matchPieces (OptDot # ps) prev s =
     (case s of [] \<Rightarrow> matchPieces ps prev s
      | x # xs \<Rightarrow>
          if x = CHR ''.'' then
            (case matchPieces ps (Some x) xs of Some n \<Rightarrow> Some (Suc n)
             | None \<Rightarrow> matchPieces ps prev s)
          else matchPieces ps prev s)"
| "matchPieces (OptSpace # ps) prev s =
     (case s of [] \<Rightarrow> matchPieces ps prev s
      | x # xs \<Rightarrow>
          if isWhitespace x then
            (case matchPieces ps (Some x) xs of Some n \<Rightarrow> Some (Suc n)
             | None \<Rightarrow> matchPieces ps prev s)
          else matchPieces ps prev s)"

definition lit :: "string \<Rightarrow> piece list" where
  "lit w = map Lit w"

definition techPatterns :: "piece list list" where
  "techPatterns =
     map lit [''react'', ''vue'', ''angular'', ''svelte'']
     @ [lit ''next'' @ [OptDot] @ lit ''js'', lit ''nuxt'', lit ''node'' @ [OptDot] @ lit ''js'']
     @ map lit [''express'', ''koa'', ''fastify'', ''django'', ''flask'', ''fastapi'', ''spring'',
         ''laravel'', ''rails'', ''docker'', ''kubernetes'', ''aws'', ''gcp'', ''azure'', ''heroku'',
         ''vercel'', ''netlify'', ''postgresql'', ''mysql'', ''mongodb'', ''redis'', ''elasticsearch'',
         ''graphql'']
     @ [lit ''rest'' @ [OptSpace] @ lit ''api'']
     @ map lit [''grpc'', ''typescript'', ''javascript'', ''python'', ''java'', ''go'', ''golang'',
         ''rust'', ''c++'', ''swift'', ''kotlin'', ''php'', ''ruby'', ''terraform'', ''ansible'',
         ''jenkins'']
     @ [lit ''github'' @ [OptSpace] @ lit ''actions'']
     @ map lit [''ci/cd'', ''webpack'', ''vite'', ''rollup'', ''jest'', ''mocha'', ''pytest'', ''junit'']"

text \<open>The first alternative that matches here, the closing \<open>\b\<close> included; its length.\<close>

fun firstMatch :: "piece list list \<Rightarrow> char option \<Rightarrow> string \<Rightarrow> nat option" where
  "firstMatch [] prev s = None"
| "firstMatch (p # ps) prev s =
     (case matchPieces (p @ [Boundary]) prev s of Some n \<Rightarrow> Some n
      | None \<Rightarrow> firstMatch ps prev s)"

definition techAt :: "char option \<Rightarrow> string \<Rightarrow> nat option" where
  "techAt prev s =
     (if wordChar prev \<noteq> wordChar (case s of [] \<Rightarrow> None | x # _ \<Rightarrow> Some x)
      then firstMatch techPatterns prev s else None)"

text \<open>\<open>content.match(/.../gi)\<close>: the matches from left to right, each search resuming after the last match.\<close>

fun techMatches :: "char option \<Rightarrow> string \<Rightarrow> string list" where
  "techMatches prev [] = []"
| "techMatches prev (x # xs) =
     (case techAt prev (x # xs) of
        Some (Suc n) \<Rightarrow> (x # take n xs) # techMatches (Some (last (x # take n xs))) (drop n xs)
      | _ \<Rightarrow> techMatches (Some x) xs)"

record ReadmeInfo =
  hasDemo_p :: bool
  hasDocs_p :: bool
  mentions :: "string list"
  projectType_p :: string
  hasMetrics_p :: bool
  complexity_p :: complexity

definition detectProjectType :: "string \<Rightarrow> string" where
  "detectProjectType lower =
     (let t0 = ''application'';
          t1 = (if testAny lower [''library'', ''package'', ''npm'', ''pypi'', ''gem''] then ''library'' else t0);
          t2 = (if testAny lower [''api'', ''backend'', ''server'', ''microservice''] then ''api'' else t1);
          t3 = (if testAny lower [''cli'', ''terminal'']
                   \<or> existsSuffix (\<lambda>t. startsWithOptAny t ''command'' ''line'') lower
                then ''cli-tool'' else t2);
          t4 = (if testAny lower [''dashboard'', ''admin'', ''panel''] then ''dashboard'' else t3);
          t5 = (if testAny lower [''mobile'', ''ios'', ''android'']
                   \<or> existsSuffix (\<lambda>t. startsWithOptAny t ''react'' ''native'') lower
                then ''mobile-app'' else t4);
          t6 = (if testAny lower [''website'', ''landing'', ''portfolio''] then ''website'' else t5)
      in t6)"

definition estimateComplexity :: "string \<Rightarrow> complexity" where
  "estimateComplexity content =
     (let wc = wordCount content;
          hasDiagrams = existsSuffix diagramAt content;
          hasSections = countHeaders True content;
          c1 = (if wc > 500 \<or> hasSections > 5 then Moderate else Simple);
          c2 = (if wc > 1500 \<or> hasSections > 10 \<or> hasDiagrams then Complex else c1)
      in c2)"

definition sanitizedMentions :: "string \<Rightarrow> string list" where
  "sanitizedMentions content =
     take 50 (filter (\<lambda>m. length m > 1 \<and> length m < 50)
                (map toLowerCase (newSet (techMatches None content))))"

definition parseReadme :: "string \<Rightarrow> ReadmeInfo" where
  "parseReadme content =
     (let maxContentLength = 50000;
          truncatedContent = (if length content > maxContentLength then take maxContentLength content
                              else content);
          lower = toLowerCase truncatedContent
      in \<lparr>hasDemo_p = testAny lower [''demo'', ''live'', ''deployed'', ''website'', ''app.'', ''production''],
          hasDocs_p = testAny lower [''documentation'', ''docs'', ''api reference'', ''wiki''],
          mentions = sanitizedMentions content,
          projectType_p = detectProjectType lower,
          hasMetrics_p = existsSuffix metricsAt content,
          complexity_p = estimateComplexity content\<rparr>)"

section \<open>Concrete repositories\<close>

text \<open>\<open>{full_name: "alice/x", fork: false, stargazers_count: 0}\<close>, not enriched.\<close>

definition repo_alice_x :: EnrichedRepoData where
  "repo_alice_x =
     \<lparr>repo_id = 1, full_name = ''alice/x'', owner_login = Some ''alice'', is_private = False,
      fork = False, updated_at = None, stargazers_count = Some 0, forks_count = Some 0,
      calculatedScore = None, enrichedData = None\<rparr>"

definition enriched_blank :: EnrichedData where
  "enriched_blank =
     \<lparr>packageJson = None, pythonDependencies = Some [], commitCount = Some 0,
      userCommitCount = Some 0, languages = Some [], languageCount = Some 0,
      totalCodeBytes = Some 0, readme = None, isMLProject = Some False,
      isDataScience = Some False, detectedTechnologies = Some []\<rparr>"

text \<open>
  \<open>{full_name: "org/y", fork: false}\<close> with 5000 stars, enriched with
  \<open>{userCommitCount: 0, commitCount: 500}\<close>.
\<close>

definition repo_org_y :: EnrichedRepoData where
  "repo_org_y =
     \<lparr>repo_id = 2, full_name = ''org/y'', owner_login = Some ''org'', is_private = False,
      fork = False, updated_at = Some 0, stargazers_count = Some 5000, forks_count = Some 900,
      calculatedScore = None,
      enrichedData = Some (enriched_blank\<lparr>commitCount := Some 500, userCommitCount := Some 0\<rparr>)\<rparr>"

text \<open>The same repository with \<open>{userCommitCount: 10, commitCount: 100}\<close>.\<close>

definition repo_org_z :: EnrichedRepoData where
  "repo_org_z =
     repo_org_y\<lparr>repo_id := 3, full_name := ''org/z'',
       enrichedData := Some (enriched_blank\<lparr>commitCount := Some 100, userCommitCount := Some 10\<rparr>)\<rparr>"

text \<open>An entry whose \<open>full_name\<close> has no separator.\<close>

definition repo_malformed :: EnrichedRepoData where
  "repo_malformed = repo_alice_x\<lparr>repo_id := 4, full_name := ''alice'', stargazers_count := Some 5000\<rparr>"

text \<open>Two more repositories of \<open>alice\<close>, not enriched; \<open>Alice/w\<close> has six forks.\<close>

definition repo_alice_w :: EnrichedRepoData where
  "repo_alice_w = repo_alice_x\<lparr>repo_id := 5, full_name := ''Alice/w'', forks_count := Some 6\<rparr>"

definition repo_alice_v :: EnrichedRepoData where
  "repo_alice_v = repo_alice_x\<lparr>repo_id := 6, full_name := ''alice/v''\<rparr>"

text \<open>Plain \<open>GitHubRepo\<close> values for the listing filter and the enrichment.\<close>

definition github_repo :: "int \<Rightarrow> string \<Rightarrow> GitHubRepo" where
  "github_repo i n =
     \<lparr>repo_id = i, full_name = n, owner_login = None, is_private = False, fork = False,
      updated_at = None, stargazers_count = Some 0, forks_count = Some 0\<rparr>"

definition listed_repos :: "GitHubRepo list" where
  "listed_repos =
     [github_repo 1 ''alice/x'',
      github_repo 2 ''alice'',
      (github_repo 3 ''org/f'')\<lparr>fork := True, stargazers_count := Some 5000\<rparr>,
      (github_repo 4 ''Alice/f'')\<lparr>fork := True, stargazers_count := Some 19, forks_count := Some 9\<rparr>,
      (github_repo 5 ''alice/g'')\<lparr>fork := True, stargazers_count := Some 20\<rparr>,
      (github_repo 6 ''org/h'')\<lparr>owner_login := Some ''Alice'', fork := True, forks_count := Some 10\<rparr>,
      github_repo 7 ''org/y'']"

text \<open>A README of 50000 letters, and the same followed by a metric and an image.\<close>

definition readme_padding :: string where
  "readme_padding = replicate 50000 (CHR ''a'')"

definition readme_long :: string where
  "readme_long = readme_padding @ '' 5 users ![d](u)''"

section \<open>Properties of the string functions\<close>

lemmas string_defs =
  trim_def toLowerCase_def toLowerChar_def upperChars_def lowerChars_def isWhitespace_def
  digitChars_def alnumChars_def

lemma splitOn_nonempty [simp]: "splitOn c s \<noteq> []"
  by (induction s) (auto split: list.splits)

lemma splitOn_short: "length (splitOn c s) < 2 \<longleftrightarrow> c \<notin> set s"
  by (induction s) (auto split: list.splits)

lemma toLowerChar_cases:
  "toLowerChar c = c \<or> (c \<in> set upperChars \<and> toLowerChar c \<in> set lowerChars)"
proof (cases "map_of (zip upperChars lowerChars) c")
  case None
  then show ?thesis by (simp add: toLowerChar_def)
next
  case (Some l)
  then have "(c, l) \<in> set (zip upperChars lowerChars)" by (rule map_of_SomeD)
  then have "c \<in> set upperChars" "l \<in> set lowerChars"
    by (auto dest: set_zip_leftD set_zip_rightD)
  with Some show ?thesis by (simp add: toLowerChar_def)
qed

lemma letters_not_whitespace:
  "c \<in> set upperChars \<or> c \<in> set lowerChars \<Longrightarrow> \<not> isWhitespace c"
  unfolding isWhitespace_def upperChars_def lowerChars_def by auto

lemma isWhitespace_toLowerChar: "isWhitespace (toLowerChar c) = isWhitespace c"
  using toLowerChar_cases[of c] letters_not_whitespace[of c]
    letters_not_whitespace[of "toLowerChar c"]
  by metis

lemma dropWhile_plain: "xs \<noteq> [] \<Longrightarrow> \<not> P (hd xs) \<Longrightarrow> dropWhile P xs = xs"
  by (cases xs) auto

lemma trim_plain:
  assumes "s \<noteq> []" "\<not> isWhitespace (hd s)" "\<not> isWhitespace (last s)"
  shows "trim s = s"
proof -
  have a: "dropWhile isWhitespace s = s"
    using assms(1,2) by (rule dropWhile_plain)
  have "dropWhile isWhitespace (rev s) = rev s"
    using assms(1,3) by (intro dropWhile_plain) (simp_all add: hd_rev)
  with a show ?thesis by (simp add: trim_def)
qed

text \<open>
  The engine's ownership test trims the lower-cased owner and leaves the username alone.
  For an owner without surrounding whitespace, as every GitHub login is, it is equality
  up to case.
\<close>

lemma isOwnRepo_plain:
  assumes "owner \<noteq> []" "\<not> isWhitespace (hd owner)" "\<not> isWhitespace (last owner)"
  shows "isOwnRepo owner (toLowerCase username) \<longleftrightarrow> toLowerCase owner = toLowerCase username"
proof -
  have "trim (toLowerCase owner) = toLowerCase owner"
    using assms
    by (intro trim_plain) (simp_all add: toLowerCase_def hd_map last_map isWhitespace_toLowerChar)
  then show ?thesis by (simp add: isOwnRepo_def)
qed

section \<open>Properties of the scoring engine\<close>

lemma computeScore_ignores_score [simp]:
  "computeScore u now (repo\<lparr>calculatedScore := v\<rparr>) = computeScore u now repo"
  by (simp add: computeScore_def fallbackScore_def signals_def publicRepoBonuses_def Let_def
      split: option.splits gate.splits)

lemma isOwn_ignores_score [simp]:
  "isOwn u (repo\<lparr>calculatedScore := v\<rparr>) = isOwn u repo"
  by (simp add: isOwn_def)

lemma scoreRepo_idem: "scoreRepo u now (scoreRepo u now repo) = scoreRepo u now repo"
  by (simp add: scoreRepo_def)

lemma set_scoreAndSortRepos:
  "set (scoreAndSortRepos repos username now) =
     {y \<in> scoreRepo (toLowerCase username) now ` set repos. keepScored (toLowerCase username) y}"
  by (auto simp: scoreAndSortRepos_def Let_def)

lemma sorted_scoreAndSortRepos:
  "sorted (map sortKey (scoreAndSortRepos repos username now))"
  by (simp add: scoreAndSortRepos_def Let_def)

text \<open>
  An entry of the output that is a given repository, with whatever score, carries that
  repository's computed score and has passed the filter.
\<close>

lemma output_entry:
  assumes "repo\<lparr>calculatedScore := c\<rparr> \<in> set (scoreAndSortRepos repos username now)"
  shows "c = Some (computeScore (toLowerCase username) now repo)
       \<and> keepScored (toLowerCase username) (scoreRepo (toLowerCase username) now repo)"
proof -
  let ?u = "toLowerCase username"
  from assms obtain x where x: "repo\<lparr>calculatedScore := c\<rparr> = scoreRepo ?u now x"
    and k: "keepScored ?u (scoreRepo ?u now x)"
    by (auto simp: set_scoreAndSortRepos)
  have "computeScore ?u now repo = computeScore ?u now (repo\<lparr>calculatedScore := c\<rparr>)"
    by simp
  also have "\<dots> = computeScore ?u now x"
    unfolding x by (simp add: scoreRepo_def)
  finally have cs: "computeScore ?u now repo = computeScore ?u now x" .
  have "calculatedScore (repo\<lparr>calculatedScore := c\<rparr>) = calculatedScore (scoreRepo ?u now x)"
    using x by simp
  then have c: "c = Some (computeScore ?u now x)"
    by (simp add: scoreRepo_def)
  have "scoreRepo ?u now repo
          = (repo\<lparr>calculatedScore := c\<rparr>)\<lparr>calculatedScore := Some (computeScore ?u now repo)\<rparr>"
    by (simp add: scoreRepo_def)
  also have "\<dots> = scoreRepo ?u now x"
    unfolding x cs by (simp add: scoreRepo_def)
  finally show ?thesis using c cs k by simp
qed

lemmas eval_defs =
  scoreAndSortRepos_def scoreRepo_def computeScore_def keepScored_def isOwn_def isOwnRepo_def
  trim_def toLowerCase_def toLowerChar_def upperChars_def lowerChars_def isWhitespace_def
  fallbackScore_def numberOr0_def daysBelow_def daysSinceUpdate_def contributionGate_def
  contributionRatio_def sortKey_def Let_def

lemmas repo_defs =
  repo_alice_x_def repo_org_y_def repo_org_z_def repo_malformed_def enriched_blank_def
  repo_alice_w_def repo_alice_v_def

text \<open>
  C1. A repository that has an enrichment record with \<open>userCommitCount = 0\<close> and whose owner
  (the part of \<open>full_name\<close> before the first \<open>/\<close>, compared as the engine compares it:
  lower-cased and trimmed, against the lower-cased username) is not the user, gets the
  sentinel score \<open>-9999\<close>, and no entry of the returned list is this repository, whatever
  its stars, forks, total commits, README or other fields are.
\<close>

theorem nonowned_zero_commits_removed:
  assumes "enrichedData repo = Some d"
    and "CHR ''/'' \<in> set (full_name repo)"
    and "\<not> isOwnRepo (hd (splitOn CHR ''/'' (full_name repo))) (toLowerCase username)"
    and "userCommitCount d = Some 0"
  shows "calculatedScore (scoreRepo (toLowerCase username) now repo) = Some (- 9999)
       \<and> \<not> (\<exists>c. repo\<lparr>calculatedScore := c\<rparr> \<in> set (scoreAndSortRepos repos username now))"
proof -
  let ?u = "toLowerCase username"
  have len: "\<not> length (splitOn CHR ''/'' (full_name repo)) < 2"
    using assms(2) by (simp add: splitOn_short)
  have score: "computeScore ?u now repo = - 9999"
    using assms(1,3,4) len
    by (simp add: computeScore_def Let_def contributionGate_def numberOr0_def)
  then have nk: "\<not> keepScored ?u (scoreRepo ?u now repo)"
    by (simp add: keepScored_def scoreRepo_def)
  have "\<not> (\<exists>c. repo\<lparr>calculatedScore := c\<rparr> \<in> set (scoreAndSortRepos repos username now))"
  proof
    assume "\<exists>c. repo\<lparr>calculatedScore := c\<rparr> \<in> set (scoreAndSortRepos repos username now)"
    then obtain c where "repo\<lparr>calculatedScore := c\<rparr> \<in> set (scoreAndSortRepos repos username now)" ..
    from output_entry[OF this] nk show False by simp
  qed
  with score show ?thesis by (simp add: scoreRepo_def)
qed

text \<open>
  The scenario of the specification: \<open>org/y\<close> with 5000 stars, 500 commits and none by
  \<open>Alice\<close> is scored \<open>-9999\<close> and dropped; only \<open>alice/x\<close> is returned.
\<close>

theorem nonowned_zero_commits_removed_witness:
  "enrichedData repo_org_y = Some (enriched_blank\<lparr>commitCount := Some 500, userCommitCount := Some 0\<rparr>)
   \<and> CHR ''/'' \<in> set (full_name repo_org_y)
   \<and> \<not> isOwnRepo (hd (splitOn CHR ''/'' (full_name repo_org_y))) (toLowerCase ''Alice'')
   \<and> userCommitCount (enriched_blank\<lparr>commitCount := Some 500, userCommitCount := Some 0\<rparr>) = Some 0
   \<and> calculatedScore (scoreRepo (toLowerCase ''Alice'') 0 repo_org_y) = Some (- 9999)
   \<and> \<not> (\<exists>c. repo_org_y\<lparr>calculatedScore := c\<rparr>
               \<in> set (scoreAndSortRepos [repo_org_y, repo_alice_x] ''Alice'' 0))
   \<and> scoreAndSortRepos [repo_org_y, repo_alice_x] ''Alice'' 0
       = [repo_alice_x\<lparr>calculatedScore := Some 20\<rparr>]"
proof -
  let ?d = "enriched_blank\<lparr>commitCount := Some 500, userCommitCount := Some 0\<rparr>"
  have h1: "enrichedData repo_org_y = Some ?d"
    by (simp add: repo_defs)
  have h2: "CHR ''/'' \<in> set (full_name repo_org_y)"
    by (simp add: repo_defs)
  have h3: "\<not> isOwnRepo (hd (splitOn CHR ''/'' (full_name repo_org_y))) (toLowerCase ''Alice'')"
    by (simp add: repo_defs eval_defs)
  have h4: "userCommitCount ?d = Some 0"
    by simp
  have out: "scoreAndSortRepos [repo_org_y, repo_alice_x] ''Alice'' 0
               = [repo_alice_x\<lparr>calculatedScore := Some 20\<rparr>]"
    by (simp add: repo_defs eval_defs)
  from nonowned_zero_commits_removed[OF h1 h2 h3 h4, of 0 "[repo_org_y, repo_alice_x]"] h1 h2 h3 h4 out
  show ?thesis by blast
qed

text \<open>
  C2. A repository without enrichment record that is not a fork and whose owner is the user
  (the engine's test, as in C1) is scored by the fallback rules with at least the ownership
  bonus of 20, and its scored entry is in the returned list: it is kept whatever its stars,
  forks, visibility and date are, so in particular with zero stars, and no commit count is
  consulted on this path.
\<close>

lemma fallbackScore_own_nonfork: "\<not> fork repo \<Longrightarrow> 20 \<le> fallbackScore now True repo"
  by (simp add: fallbackScore_def Let_def)

theorem owned_nonfork_unenriched_kept:
  assumes "enrichedData repo = None"
    and "CHR ''/'' \<in> set (full_name repo)"
    and "isOwnRepo (hd (splitOn CHR ''/'' (full_name repo))) (toLowerCase username)"
    and "\<not> fork repo"
    and "repo \<in> set repos"
  shows "\<exists>s. calculatedScore (scoreRepo (toLowerCase username) now repo) = Some s \<and> 20 \<le> s
           \<and> scoreRepo (toLowerCase username) now repo
               \<in> set (scoreAndSortRepos repos username now)"
proof -
  let ?u = "toLowerCase username"
  have len: "\<not> length (splitOn CHR ''/'' (full_name repo)) < 2"
    using assms(2) by (simp add: splitOn_short)
  have "computeScore ?u now repo = fallbackScore now True repo"
    using assms(1,3) len by (simp add: computeScore_def Let_def)
  with fallbackScore_own_nonfork[OF assms(4)] have score: "20 \<le> computeScore ?u now repo"
    by simp
  then have "keepScored ?u (scoreRepo ?u now repo)"
    by (simp add: keepScored_def scoreRepo_def)
  with assms(5) have "scoreRepo ?u now repo \<in> set (scoreAndSortRepos repos username now)"
    by (simp add: set_scoreAndSortRepos)
  with score show ?thesis by (simp add: scoreRepo_def)
qed

text \<open>The scenario of the specification: \<open>alice/x\<close> for \<open>Alice\<close> is returned with score 20.\<close>

theorem owned_nonfork_unenriched_kept_witness:
  "enrichedData repo_alice_x = None
   \<and> CHR ''/'' \<in> set (full_name repo_alice_x)
   \<and> isOwnRepo (hd (splitOn CHR ''/'' (full_name repo_alice_x))) (toLowerCase ''Alice'')
   \<and> \<not> fork repo_alice_x
   \<and> repo_alice_x \<in> set [repo_malformed, repo_alice_x]
   \<and> (\<exists>s. calculatedScore (scoreRepo (toLowerCase ''Alice'') 0 repo_alice_x) = Some s \<and> 20 \<le> s
           \<and> scoreRepo (toLowerCase ''Alice'') 0 repo_alice_x
               \<in> set (scoreAndSortRepos [repo_malformed, repo_alice_x] ''Alice'' 0))
   \<and> scoreRepo (toLowerCase ''Alice'') 0 repo_alice_x = repo_alice_x\<lparr>calculatedScore := Some 20\<rparr>"
proof -
  have h1: "enrichedData repo_alice_x = None" by (simp add: repo_defs)
  have h2: "CHR ''/'' \<in> set (full_name repo_alice_x)" by (simp add: repo_defs)
  have h3: "isOwnRepo (hd (splitOn CHR ''/'' (full_name repo_alice_x))) (toLowerCase ''Alice'')"
    by (simp add: repo_defs eval_defs)
  have h4: "\<not> fork repo_alice_x" by (simp add: repo_defs)
  have h5: "repo_alice_x \<in> set [repo_malformed, repo_alice_x]" by simp
  have v: "scoreRepo (toLowerCase ''Alice'') 0 repo_alice_x = repo_alice_x\<lparr>calculatedScore := Some 20\<rparr>"
    by (simp add: repo_defs eval_defs)
  from owned_nonfork_unenriched_kept[OF h1 h2 h3 h4 h5, of 0] h1 h2 h3 h4 h5 v
  show ?thesis by blast
qed

text \<open>
  C3, as stated, fails: with \<open>userCommitCount = 10\<close> and \<open>commitCount = 100\<close> a non-owned
  repository does not receive the penalty of 200. For \<open>org/z\<close> the score is the signals
  minus 100, which is 0, not the signals minus 200.
\<close>

theorem boundary_ratio_not_200_tier:
  "contributionGate False False 10 100 \<noteq> Penalty 200
   \<and> computeScore ''alice'' 0 repo_org_z
       = signals 0 False repo_org_z
           (enriched_blank\<lparr>commitCount := Some 100, userCommitCount := Some 10\<rparr>) - 100
   \<and> computeScore ''alice'' 0 repo_org_z
       \<noteq> signals 0 False repo_org_z
           (enriched_blank\<lparr>commitCount := Some 100, userCommitCount := Some 10\<rparr>) - 200"
  by (simp add: repo_defs eval_defs)

text \<open>
  C3, amended. Both comparisons of the tiers are strict: at \<open>userCommitCount = 10\<close> and
  \<open>commitCount = 100\<close> the contribution ratio is exactly \<open>1/10\<close>, neither \<open>10 < 10\<close> nor
  \<open>1/10 < 1/10\<close> holds, and a non-owned repository receives the next tier, "fewer than 20
  commits or less than 25% of the commits": a penalty of 100.
\<close>

theorem boundary_ratio_100_tier:
  assumes "enrichedData repo = Some d"
    and "CHR ''/'' \<in> set (full_name repo)"
    and "\<not> isOwnRepo (hd (splitOn CHR ''/'' (full_name repo))) usernameLower"
    and "userCommitCount d = Some 10" and "commitCount d = Some 100"
  shows "contributionRatio 10 100 = 1 / 10
       \<and> contributionGate False (fork repo) 10 100 = Penalty 100
       \<and> computeScore usernameLower now repo = signals now False repo d - 100"
proof -
  have len: "\<not> length (splitOn CHR ''/'' (full_name repo)) < 2"
    using assms(2) by (simp add: splitOn_short)
  have r: "contributionRatio 10 100 = 1 / 10"
    by (simp add: contributionRatio_def)
  have g: "contributionGate False b 10 100 = Penalty 100" for b
    by (simp add: contributionGate_def r Let_def)
  show ?thesis using assms len g r
    by (simp add: computeScore_def Let_def numberOr0_def)
qed

theorem boundary_ratio_100_tier_witness:
  "enrichedData repo_org_z = Some (enriched_blank\<lparr>commitCount := Some 100, userCommitCount := Some 10\<rparr>)
   \<and> CHR ''/'' \<in> set (full_name repo_org_z)
   \<and> \<not> isOwnRepo (hd (splitOn CHR ''/'' (full_name repo_org_z))) ''alice''
   \<and> contributionGate False (fork repo_org_z) 10 100 = Penalty 100
   \<and> signals 0 False repo_org_z (enriched_blank\<lparr>commitCount := Some 100, userCommitCount := Some 10\<rparr>) = 100
   \<and> computeScore ''alice'' 0 repo_org_z = 0"
proof -
  let ?d = "enriched_blank\<lparr>commitCount := Some 100, userCommitCount := Some 10\<rparr>"
  have h1: "enrichedData repo_org_z = Some ?d" by (simp add: repo_defs)
  have h2: "CHR ''/'' \<in> set (full_name repo_org_z)" by (simp add: repo_defs)
  have h3: "\<not> isOwnRepo (hd (splitOn CHR ''/'' (full_name repo_org_z))) ''alice''"
    by (simp add: repo_defs eval_defs)
  have h4: "userCommitCount ?d = Some 10" by simp
  have h5: "commitCount ?d = Some 100" by simp
  have s: "signals 0 False repo_org_z ?d = 100"
    by (simp add: repo_defs signals_def numberOr0_def commitActivity_def codeSize_def
        languageDiversity_def readmeLengthOf_def readmeQuality_def projectComplexity_def
        qualityIndicators_def readmeFlag_def dependencyCount_def recency_def daysBelow_def
        daysSinceUpdate_def publicRepoBonuses_def minorPenalties_def Let_def)
  from boundary_ratio_100_tier[OF h1 h2 h3 h4 h5, of 0] h1 h2 h3 s show ?thesis by simp
qed

text \<open>
  C9. Scoring is idempotent: applied to its own output with the same username and the same
  current time, \<open>scoreAndSortRepos\<close> returns that output again, the same entries with the same
  scores in the same order. (The score is computed from fields that scoring leaves alone, every
  returned entry passes the filter again, and the stable descending sort leaves a sorted
  list as it is.)
\<close>

theorem scoreAndSortRepos_idempotent:
  "scoreAndSortRepos (scoreAndSortRepos repos username now) username now
     = scoreAndSortRepos repos username now"
proof -
  let ?u = "toLowerCase username"
  let ?ys = "scoreAndSortRepos repos username now"
  have fixed: "map (scoreRepo ?u now) ?ys = ?ys"
    by (rule map_idI) (auto simp: set_scoreAndSortRepos scoreRepo_idem)
  have keep: "filter (keepScored ?u) ?ys = ?ys"
    by (rule filter_True) (simp add: set_scoreAndSortRepos)
  have "scoreAndSortRepos ?ys username now = sort_key sortKey ?ys"
    unfolding scoreAndSortRepos_def[of ?ys] Let_def using fixed keep
    by (simp add: scoreAndSortRepos_def Let_def)
  also have "\<dots> = ?ys"
    by (rule sort_key_id_if_sorted) (rule sorted_scoreAndSortRepos)
  finally show ?thesis .
qed

text \<open>
  Five repositories, of which three are returned, two of them with equal scores in their
  input order; scoring the result again returns it unchanged.
\<close>

theorem scoreAndSortRepos_idempotent_witness:
  "scoreAndSortRepos [repo_alice_x, repo_org_y, repo_alice_w, repo_malformed, repo_alice_v] ''alice'' 0
     = [repo_alice_w\<lparr>calculatedScore := Some 40\<rparr>, repo_alice_x\<lparr>calculatedScore := Some 20\<rparr>,
        repo_alice_v\<lparr>calculatedScore := Some 20\<rparr>]
   \<and> scoreAndSortRepos
        [repo_alice_w\<lparr>calculatedScore := Some 40\<rparr>, repo_alice_x\<lparr>calculatedScore := Some 20\<rparr>,
         repo_alice_v\<lparr>calculatedScore := Some 20\<rparr>] ''alice'' 0
     = [repo_alice_w\<lparr>calculatedScore := Some 40\<rparr>, repo_alice_x\<lparr>calculatedScore := Some 20\<rparr>,
        repo_alice_v\<lparr>calculatedScore := Some 20\<rparr>]"
proof -
  have out: "scoreAndSortRepos [repo_alice_x, repo_org_y, repo_alice_w, repo_malformed, repo_alice_v] ''alice'' 0
     = [repo_alice_w\<lparr>calculatedScore := Some 40\<rparr>, repo_alice_x\<lparr>calculatedScore := Some 20\<rparr>,
        repo_alice_v\<lparr>calculatedScore := Some 20\<rparr>]"
    by (simp add: repo_defs eval_defs)
  from scoreAndSortRepos_idempotent
         [of "[repo_alice_x, repo_org_y, repo_alice_w, repo_malformed, repo_alice_v]" "''alice''" 0]
  show ?thesis unfolding out by simp
qed

text \<open>
  C10. An entry whose \<open>full_name\<close> has no \<open>/\<close> is given the score 0 (no operation of the
  callback fails on it), the filter's ownership test is false for it, and no entry of the
  returned list is this repository.
\<close>

theorem malformed_full_name_removed:
  assumes "CHR ''/'' \<notin> set (full_name repo)"
  shows "calculatedScore (scoreRepo (toLowerCase username) now repo) = Some 0
       \<and> \<not> isOwn (toLowerCase username) (scoreRepo (toLowerCase username) now repo)
       \<and> \<not> (\<exists>c. repo\<lparr>calculatedScore := c\<rparr> \<in> set (scoreAndSortRepos repos username now))"
proof -
  let ?u = "toLowerCase username"
  have len: "length (splitOn CHR ''/'' (full_name repo)) < 2"
    using assms by (simp add: splitOn_short)
  then have score: "computeScore ?u now repo = 0"
    by (simp add: computeScore_def Let_def)
  from len have own: "\<not> isOwn ?u repo"
    by (simp add: isOwn_def Let_def)
  with score have nk: "\<not> keepScored ?u (scoreRepo ?u now repo)"
    by (simp add: keepScored_def scoreRepo_def)
  have "\<not> (\<exists>c. repo\<lparr>calculatedScore := c\<rparr> \<in> set (scoreAndSortRepos repos username now))"
  proof
    assume "\<exists>c. repo\<lparr>calculatedScore := c\<rparr> \<in> set (scoreAndSortRepos repos username now)"
    then obtain c where "repo\<lparr>calculatedScore := c\<rparr> \<in> set (scoreAndSortRepos repos username now)" ..
    from output_entry[OF this] nk show False by simp
  qed
  with score own show ?thesis by (simp add: scoreRepo_def)
qed

text \<open>\<open>full_name = "alice"\<close> with 5000 stars, for the user \<open>alice\<close>: scored 0 and dropped.\<close>

theorem malformed_full_name_removed_witness:
  "CHR ''/'' \<notin> set (full_name repo_malformed)
   \<and> calculatedScore (scoreRepo (toLowerCase ''alice'') 0 repo_malformed) = Some 0
   \<and> \<not> isOwn (toLowerCase ''alice'') (scoreRepo (toLowerCase ''alice'') 0 repo_malformed)
   \<and> \<not> (\<exists>c. repo_malformed\<lparr>calculatedScore := c\<rparr>
               \<in> set (scoreAndSortRepos [repo_malformed, repo_alice_x] ''alice'' 0))
   \<and> scoreAndSortRepos [repo_malformed, repo_alice_x] ''alice'' 0
       = [repo_alice_x\<lparr>calculatedScore := Some 20\<rparr>]"
proof -
  have h: "CHR ''/'' \<notin> set (full_name repo_malformed)" by (simp add: repo_defs)
  have out: "scoreAndSortRepos [repo_malformed, repo_alice_x] ''alice'' 0
               = [repo_alice_x\<lparr>calculatedScore := Some 20\<rparr>]"
    by (simp add: repo_defs eval_defs)
  from malformed_full_name_removed[OF h, of "''alice''" 0 "[repo_malformed, repo_alice_x]"] h out
  show ?thesis by blast
qed

section \<open>Properties of the listing filter\<close>

lemma relevantRepo_iff:
  "relevantRepo u repo \<longleftrightarrow>
     \<not> (CHR ''/'' \<notin> set (full_name repo)
        \<or> (fork repo \<and> \<not> isOwnRepo_listing u repo)
        \<or> (fork repo \<and> isOwnRepo_listing u repo
            \<and> numberOr0 (stargazers_count repo) < 20 \<and> numberOr0 (forks_count repo) < 10))"
  by (auto simp: relevantRepo_def Let_def splitOn_short)

text \<open>
  C8. The relevance filter of \<open>fetchAllRepos\<close> removes exactly the entries whose
  \<open>full_name\<close> has no \<open>/\<close>, the forks that the user does not own, and the user's own forks
  with fewer than 20 stars and fewer than 10 forks; so an own fork with at least 20 stars or
  at least 10 forks is kept, and every well-formed repository of the user that is not a
  fork is kept whatever its activity is. "Own" is the filter's test: the owner part of
  \<open>full_name\<close> or \<open>owner.login\<close> equals the username, all lower-cased and trimmed.
\<close>

theorem listing_filter_exact:
  "userRelevantRepos username repos
     = filter (\<lambda>repo. \<not> (CHR ''/'' \<notin> set (full_name repo)
                \<or> (fork repo \<and> \<not> isOwnRepo_listing (trim username) repo)
                \<or> (fork repo \<and> isOwnRepo_listing (trim username) repo
                    \<and> numberOr0 (stargazers_count repo) < 20
                    \<and> numberOr0 (forks_count repo) < 10))) repos
   \<and> (\<forall>repo \<in> set repos.
         CHR ''/'' \<in> set (full_name repo) \<and> isOwnRepo_listing (trim username) repo \<and> \<not> fork repo
         \<longrightarrow> repo \<in> set (userRelevantRepos username repos))"
proof
  have "relevantRepo (trim username)
          = (\<lambda>repo. \<not> (CHR ''/'' \<notin> set (full_name repo)
                \<or> (fork repo \<and> \<not> isOwnRepo_listing (trim username) repo)
                \<or> (fork repo \<and> isOwnRepo_listing (trim username) repo
                    \<and> numberOr0 (stargazers_count repo) < 20
                    \<and> numberOr0 (forks_count repo) < 10)))"
    by (rule ext) (rule relevantRepo_iff)
  then show "userRelevantRepos username repos
     = filter (\<lambda>repo. \<not> (CHR ''/'' \<notin> set (full_name repo)
                \<or> (fork repo \<and> \<not> isOwnRepo_listing (trim username) repo)
                \<or> (fork repo \<and> isOwnRepo_listing (trim username) repo
                    \<and> numberOr0 (stargazers_count repo) < 20
                    \<and> numberOr0 (forks_count repo) < 10))) repos"
    unfolding userRelevantRepos_def by (rule arg_cong)
  show "\<forall>repo \<in> set repos.
         CHR ''/'' \<in> set (full_name repo) \<and> isOwnRepo_listing (trim username) repo \<and> \<not> fork repo
         \<longrightarrow> repo \<in> set (userRelevantRepos username repos)"
    by (simp add: userRelevantRepos_def relevantRepo_iff)
qed

text \<open>
  Seven listed repositories for the user \<open>" alice "\<close>: the malformed entry, the foreign fork
  with 5000 stars and the own fork with 19 stars and 9 forks are removed.
\<close>

theorem listing_filter_exact_witness:
  "userRelevantRepos '' alice '' listed_repos
     = [github_repo 1 ''alice/x'',
        (github_repo 5 ''alice/g'')\<lparr>fork := True, stargazers_count := Some 20\<rparr>,
        (github_repo 6 ''org/h'')\<lparr>owner_login := Some ''Alice'', fork := True, forks_count := Some 10\<rparr>,
        github_repo 7 ''org/y'']
   \<and> isOwnRepo_listing (trim '' alice '') (github_repo 1 ''alice/x'')
   \<and> github_repo 1 ''alice/x'' \<in> set (userRelevantRepos '' alice '' listed_repos)"
proof -
  have own: "isOwnRepo_listing (trim '' alice '') (github_repo 1 ''alice/x'')"
    by (simp add: isOwnRepo_listing_def github_repo_def string_defs Let_def)
  have "userRelevantRepos '' alice '' listed_repos
     = [github_repo 1 ''alice/x'',
        (github_repo 5 ''alice/g'')\<lparr>fork := True, stargazers_count := Some 20\<rparr>,
        (github_repo 6 ''org/h'')\<lparr>owner_login := Some ''Alice'', fork := True, forks_count := Some 10\<rparr>,
        github_repo 7 ''org/y'']"
    using listing_filter_exact[of "'' alice ''" listed_repos]
    by (simp add: listed_repos_def github_repo_def isOwnRepo_listing_def numberOr0_def string_defs Let_def)
  moreover have "github_repo 1 ''alice/x'' \<in> set (userRelevantRepos '' alice '' listed_repos)"
    using listing_filter_exact[of "'' alice ''" listed_repos] own
    by (simp add: listed_repos_def github_repo_def)
  ultimately show ?thesis using own by simp
qed

section \<open>Properties of the enrichment\<close>

text \<open>
  C7, as stated, fails: without a \<open>limit\<close> argument 10 of 25 repositories are enriched,
  not 20.
\<close>

theorem enrichRepoData_default_not_20:
  "length (enrichRepoData (\<lambda>repo. None) (replicate 25 (github_repo 1 ''alice/x'')) None) = 10
   \<and> length (enrichRepoData (\<lambda>repo. None) (replicate 25 (github_repo 1 ''alice/x'')) (Some 20)) = 20"
  by (simp add: enrichRepoData_def sliceTo_def Let_def)

text \<open>
  C7, amended. The \<open>limit\<close> parameter defaults to 10 (the calls in \<open>App.tsx\<close> pass 20), and
  for every list exactly the first \<open>limit\<close> repositories are enriched, in their order; the
  others are not processed.
\<close>

theorem enrichRepoData_limit:
  assumes "0 \<le> limit"
  shows "enrichRepoData enrichOne repos None = map (enrichEntry enrichOne) (take 10 repos)
       \<and> enrichRepoData enrichOne repos (Some limit) = map (enrichEntry enrichOne) (take (nat limit) repos)"
  using assms by (simp add: enrichRepoData_def sliceTo_def Let_def)

theorem enrichRepoData_limit_witness:
  "(0::int) \<le> 2
   \<and> enrichRepoData (\<lambda>repo. None) listed_repos (Some 2)
       = map (enrichEntry (\<lambda>repo. None)) [github_repo 1 ''alice/x'', github_repo 2 ''alice'']
   \<and> length (enrichRepoData (\<lambda>repo. None) (replicate 25 (github_repo 1 ''alice/x'')) None) = 10"
proof -
  have h: "(0::int) \<le> 2" by simp
  from enrichRepoData_limit[OF h, of "\<lambda>repo. None" listed_repos]
  have a: "enrichRepoData (\<lambda>repo. None) listed_repos (Some 2)
       = map (enrichEntry (\<lambda>repo. None)) [github_repo 1 ''alice/x'', github_repo 2 ''alice'']"
    by (simp add: listed_repos_def)
  from enrichRepoData_limit[OF h, of "\<lambda>repo. None" "replicate 25 (github_repo 1 ''alice/x'')"]
  have b: "length (enrichRepoData (\<lambda>repo. None) (replicate 25 (github_repo 1 ''alice/x'')) None) = 10"
    by simp
  from a b show ?thesis by simp
qed

section \<open>Properties of the content fetcher\<close>

text \<open>
  The promise never rejects; a rejected request (network failure or abort), a response that
  is not ok, an unreadable body and an oversized file give \<open>null\<close>, and what is returned is
  never longer than \<open>maxSizeBytes\<close>.
\<close>

lemma fetchFileContent_never_throws: "\<exists>r. fetchFileContent up maxSizeBytes = Inr r"
  by (simp add: fetchFileContent_def split: sum.splits)

lemma fetchFileContent_rejected: "fetchFileContent (FetchRejects e) maxSizeBytes = Inr None"
  by (simp add: fetchFileContent_def fetchFileContent_try_def)

lemma fetchFileContent_not_ok: "fetchFileContent (Response False b) maxSizeBytes = Inr None"
  by (simp add: fetchFileContent_def fetchFileContent_try_def)

lemma fetchFileContent_bad_json: "fetchFileContent (Response ok JsonRejects) maxSizeBytes = Inr None"
  by (simp add: fetchFileContent_def fetchFileContent_try_def)

lemma fetchFileContent_within_size:
  "fetchFileContent up (Some m) = Inr (Some text) \<Longrightarrow> int (length text) \<le> m"
  by (auto simp: fetchFileContent_def fetchFileContent_try_def Let_def
      split: upstream.splits body.splits if_splits json_field.splits sum.splits)

lemma fetchFileContent_declared_size:
  "data_size d = Some n \<Longrightarrow> n > m \<Longrightarrow> m \<ge> 0 \<Longrightarrow> fetchFileContent (Response ok (JsonObject d)) (Some m) = Inr None"
  by (auto simp: fetchFileContent_def fetchFileContent_try_def Let_def)

lemma fetchFileContent_decodes: "fetchFileContent
        (Response True (JsonObject \<lparr>data_size = Some 2, data_content = Str (''aG'' @ [CHR 0x0A] @ ''k=''), data_encoding = Some ''base64''\<rparr>))
        None = Inr (Some ''hi'')"
  by code_simp

text \<open>
  C5 does not hold for a decoding failure: for content that is not base64, \<open>atob\<close> throws,
  \<open>base64Decode\<close> catches that itself and returns the empty string, and \<open>fetchFileContent\<close>
  returns that empty string, not \<open>null\<close>; its own \<open>catch (decodeError)\<close>, which returns
  \<open>null\<close>, is never reached by a failure of the decoder.
\<close>

theorem fetchFileContent_decode_failure:
  "atob ''!!!!'' = None
   \<and> fetchFileContent
        (Response True (JsonObject \<lparr>data_size = Some 4, data_content = Str ''!!!!'', data_encoding = Some ''base64''\<rparr>))
        None = Inr (Some '''')"
  by (simp add: fetchFileContent_def fetchFileContent_try_def base64Decode_def atob_def stripPadding_def b64Alphabet_def Let_def)

section \<open>Properties of the manifest parsers\<close>

text \<open>
  The parsers that end in \<open>[...new Set(deps)].slice(0, 100)\<close>, such as \<open>parseGoMod\<close>, return
  at most 100 distinct names; \<open>parseRequirementsTxt\<close> returns at most 500 names.
\<close>

lemma distinct_newSet_aux:
  "distinct acc \<Longrightarrow> distinct (foldl (\<lambda>acc x. if x \<in> set acc then acc else acc @ [x]) acc xs)"
  by (induction xs arbitrary: acc) auto

lemma distinct_newSet: "distinct (newSet xs)"
  by (simp add: newSet_def distinct_newSet_aux)

lemma set_cap_bounded: "distinct (take n (newSet deps)) \<and> length (take n (newSet deps)) \<le> n"
  by (simp add: distinct_newSet)

lemma parseGoMod_bounded: "distinct (parseGoMod content) \<and> length (parseGoMod content) \<le> 100"
  by (simp add: parseGoMod_def Let_def distinct_newSet)

lemma length_map_filter_le: "length (List.map_filter f xs) \<le> length xs"
  by (simp add: map_filter_def)

lemma parseRequirementsTxt_bounded: "length (parseRequirementsTxt content) \<le> 500"
proof (cases "content = [] \<or> length content > 100000")
  case True
  then show ?thesis by (auto simp add: parseRequirementsTxt_def)
next
  case False
  let ?kept = "filter (\<lambda>line. line \<noteq> [] \<and> \<not> startsWith line ''#'' \<and> length line < 200)
                (map trim (take 500 (splitOn CHR 0x0A content)))"
  have "length (parseRequirementsTxt content) \<le> length (map packageName ?kept)"
    using False unfolding parseRequirementsTxt_def Let_def
    by (simp only: if_False length_map_filter_le)
  also have "\<dots> \<le> length (take 500 (splitOn CHR 0x0A content))"
    by (simp add: le_trans[OF length_filter_le])
  also have "\<dots> \<le> 500" by simp
  finally show ?thesis .
qed

text \<open>
  C4 does not hold for \<open>parseRequirementsTxt\<close>: it has no deduplication step, and two
  lines naming \<open>flask\<close> give \<open>flask\<close> twice. The same two names in a \<open>go.mod\<close> are
  returned once.
\<close>

theorem parseRequirementsTxt_keeps_duplicates:
  "parseRequirementsTxt (''flask'' @ [CHR 0x0A] @ ''flask'') = [''flask'', ''flask'']
   \<and> \<not> distinct (parseRequirementsTxt (''flask'' @ [CHR 0x0A] @ ''flask''))
   \<and> parseGoMod (''a/flask v1'' @ [CHR 0x0A] @ ''b/flask v1'') = [''flask'']"
  by (simp add: parseRequirementsTxt_def packageName_def parseGoMod_def requireMatch_def modulePath_def newSet_def
     string_defs map_filter_def Let_def)

section \<open>Properties of the README analyzer\<close>

lemma existsSuffix_append: "existsSuffix P ys \<Longrightarrow> existsSuffix P (xs @ ys)"
  by (induction xs) auto

lemma no_metrics_in_letters: "\<not> existsSuffix metricsAt (replicate n (CHR ''a''))"
  by (induction n) (auto simp: metricsAt_def digitChars_def)

lemma no_diagram_in_letters: "\<not> existsSuffix diagramAt (replicate n (CHR ''a''))"
  by (induction n) (auto simp: diagramAt_def)

lemma no_whitespace_in_letters: "whitespaceRuns b (replicate n (CHR ''a'')) = 0"
  by (induction n arbitrary: b) (auto simp: isWhitespace_def)

lemma no_header_in_letters: "countHeaders b (replicate n (CHR ''a'')) = 0"
  by (induction n arbitrary: b) (auto simp: headerAt_def)

lemma hasMetrics_parseReadme: "hasMetrics_p (parseReadme content) = existsSuffix metricsAt content"
  by (simp add: parseReadme_def Let_def)

lemma complexity_parseReadme: "complexity_p (parseReadme content) = estimateComplexity content"
  by (simp add: parseReadme_def Let_def)

lemma diagram_is_complex: "existsSuffix diagramAt content \<Longrightarrow> estimateComplexity content = Complex"
  by (simp add: estimateComplexity_def Let_def)

text \<open>
  The three fields computed from \<open>truncatedContent\<close> depend only on the first 50000
  characters.
\<close>

lemma truncated_fields:
  assumes "take 50000 c1 = take 50000 c2"
  shows "projectType_p (parseReadme c1) = projectType_p (parseReadme c2)
       \<and> hasDemo_p (parseReadme c1) = hasDemo_p (parseReadme c2)
       \<and> hasDocs_p (parseReadme c1) = hasDocs_p (parseReadme c2)"
proof -
  have t: "(if length c > 50000 then take 50000 c else c) = take 50000 c" for c :: string
    by simp
  show ?thesis
    unfolding parseReadme_def Let_def t using assms by simp
qed

text \<open>
  C6 does not hold for \<open>hasMetrics\<close> and \<open>complexity\<close>: they are computed from the whole
  text, not from \<open>truncatedContent\<close>. A README of 50000 letters followed by
  \<open>" 5 users ![d](u)"\<close> and the README of its first 50000 characters alone differ in both.
\<close>

theorem parseReadme_reads_past_truncation:
  "length readme_long > 50000
   \<and> take 50000 readme_long = readme_padding
   \<and> hasMetrics_p (parseReadme readme_long) \<and> \<not> hasMetrics_p (parseReadme readme_padding)
   \<and> complexity_p (parseReadme readme_long) = Complex
   \<and> complexity_p (parseReadme readme_padding) = Simple"
proof -
  have len: "length readme_long > 50000" and tk: "take 50000 readme_long = readme_padding"
    by (simp_all add: readme_long_def readme_padding_def)
  have "existsSuffix metricsAt ''5 users ![d](u)''"
    by (simp add: metricsAt_def string_defs)
  then have "existsSuffix metricsAt ('' '' @ ''5 users ![d](u)'')"
    by (rule existsSuffix_append)
  then have "existsSuffix metricsAt (readme_padding @ '' 5 users ![d](u)'')"
    by (simp add: existsSuffix_append)
  then have m1: "hasMetrics_p (parseReadme readme_long)"
    by (simp add: hasMetrics_parseReadme readme_long_def)
  have m2: "\<not> hasMetrics_p (parseReadme readme_padding)"
    by (simp add: hasMetrics_parseReadme readme_padding_def no_metrics_in_letters)
  have "existsSuffix diagramAt ''![d](u)''"
    by (simp add: diagramAt_def lineTerminator_def)
  then have "existsSuffix diagramAt ((readme_padding @ '' 5 users '') @ ''![d](u)'')"
    by (rule existsSuffix_append)
  then have c1: "complexity_p (parseReadme readme_long) = Complex"
    by (simp add: complexity_parseReadme readme_long_def diagram_is_complex)
  have c2: "complexity_p (parseReadme readme_padding) = Simple"
    by (simp add: complexity_parseReadme estimateComplexity_def wordCount_def readme_padding_def
        no_diagram_in_letters no_whitespace_in_letters no_header_in_letters Let_def)
  from len tk m1 m2 c1 c2 show ?thesis by simp
qed

end
